theory Spec2Isabelle
  imports Main
begin

section \<open>Data model\<close>

text \<open>
  Identifiers are the strings the JavaScript compares with \<open>===\<close> after \<open>toString()\<close>:
  MongoDB object ids of users and tasks, socket ids, and the room names built by the
  template literals \<open>`task:${taskId}`\<close> and \<open>`user:${userId}`\<close>. A stored \<open>_id\<close> is kept in
  the form \<open>toString()\<close> gives it; a task id sent by a client is any string.
\<close>

type_synonym uid = string
type_synonym tid = string
type_synonym sid = string
type_synonym room = string

text \<open>The schema enums of \<open>models/Task.js\<close>.\<close>

datatype permission = View | Edit | Admin

datatype role = Assignee | Reviewer | Observer

text \<open>
  The sub-documents \<open>assignees[]\<close> and \<open>sharedWith[]\<close> and the fields of a task document
  that the socket handlers, the access check and the delete route read.
\<close>

record assignee_entry =
  assignee_user :: uid
  assignee_role :: role

record share_entry =
  shared_user :: uid
  shared_permission :: permission
  sharedBy :: uid

record task =
  task_id :: tid
  title :: string
  owner :: uid
  assignees :: "assignee_entry list"
  sharedWith :: "share_entry list"
  subtasks :: "tid list"

section \<open>The access check \<open>taskSchema.methods.hasAccess\<close>\<close>

text \<open>\<open>Array.prototype.indexOf\<close>: the position of the first occurrence, or \<open>-1\<close>.\<close>

fun indexOf_from :: "int \<Rightarrow> 'a list \<Rightarrow> 'a \<Rightarrow> int" where
  "indexOf_from i [] x = -1"
| "indexOf_from i (y # ys) x = (if y = x then i else indexOf_from (i + 1) ys x)"

definition indexOf :: "'a list \<Rightarrow> 'a \<Rightarrow> int" where
  "indexOf xs x = indexOf_from 0 xs x"

definition permissions :: "permission list" where
  "permissions = [View, Edit, Admin]"

text \<open>
  The method returns at the first rule that applies: the owner, then an assignee (whatever
  permission is asked for), then the first \<open>sharedWith\<close> entry of the user
  (\<open>Array.prototype.find\<close>), compared by position in \<open>permissions\<close>.
\<close>

definition hasAccess :: "task \<Rightarrow> uid \<Rightarrow> permission \<Rightarrow> bool" where
  "hasAccess t userId perm =
     (if owner t = userId then True
      else if list_ex (\<lambda>assignee. assignee_user assignee = userId) (assignees t) then True
      else (case find (\<lambda>share. shared_user share = userId) (sharedWith t) of
              None \<Rightarrow> False
            | Some sharedAccess \<Rightarrow>
                (let userPermLevel = indexOf permissions (shared_permission sharedAccess);
                     requiredPermLevel = indexOf permissions perm
                 in userPermLevel \<ge> requiredPermLevel)))"

text \<open>
  The rank order of the specification, \<open>view(0) < edit(1) < admin(2)\<close>, written from its
  words, to be compared with the positions the code computes.
\<close>

fun spec_rank :: "permission \<Rightarrow> nat" where
  "spec_rank View = 0"
| "spec_rank Edit = 1"
| "spec_rank Admin = 2"

section \<open>Sockets, rooms and emitted events\<close>

text \<open>
  \<open>socket.user\<close> is the user document loaded by the authentication middleware;
  \<open>socket.userId\<close> is its \<open>_id\<close> as a string. A socket reaches the \<open>connection\<close>
  handler only after that middleware has accepted its token.
\<close>

record user_doc =
  firstName :: string
  lastName :: string
  profileImage :: string

record socket =
  socket_id :: sid
  userId :: uid
  user :: user_doc

definition userName :: "socket \<Rightarrow> string" where
  "userName sock = firstName (user sock) @ '' '' @ lastName (user sock)"

text \<open>The values of the map \<open>connectedUsers\<close> (the \<open>connectedAt\<close> clock reading is left out).\<close>

record conn_info =
  socketId :: sid
  conn_user :: user_doc

text \<open>
  The events the server emits, one constructor per event name, with the payload fields
  in the order of the source (the \<open>timestamp: new Date()\<close> fields are left out):
  \<open>connected\<close>, \<open>joined:task\<close>, \<open>user:joined\<close>, \<open>user:left\<close> (with \<open>taskId\<close> on leave
  and \<open>reason\<close> on disconnect), \<open>left:task\<close>, \<open>error\<close>, \<open>task:updated\<close>,
  \<open>task:comment:new\<close>, \<open>task:typing:status\<close>, \<open>task:status:changed\<close>, \<open>notification\<close>
  and \<open>user:status\<close>.
\<close>

datatype event =
    Connected uid
  | JoinedTask tid
  | UserJoined uid string tid
  | UserLeft uid string "tid option" "string option"
  | LeftTask tid
  | ErrorEvent string
  | TaskUpdated tid string string uid string
  | TaskCommentNew tid string uid string string string
  | TaskTypingStatus tid uid string bool
  | TaskStatusChanged tid string string uid string
  | Notification string string tid uid string
  | UserStatus uid string

text \<open>
  The mutable state: the module-level map \<open>connectedUsers\<close> (keyed by user id), the
  sockets the Socket.IO server holds as connected, and its adapter's room table (room
  name to set of socket ids). The room every socket has under its own id is never
  addressed by the handlers and is left out.
\<close>

record core =
  connectedUsers :: "uid \<rightharpoonup> conn_info"
  sockets :: "sid \<rightharpoonup> socket"
  rooms :: "room \<Rightarrow> sid set"

definition init_core :: core where
  "init_core = \<lparr>connectedUsers = Map.empty, sockets = Map.empty, rooms = (\<lambda>r. {})\<rparr>"

definition task_room :: "tid \<Rightarrow> room" where
  "task_room taskId = ''task:'' @ taskId"

definition user_room :: "uid \<Rightarrow> room" where
  "user_room u = ''user:'' @ u"

text \<open>
  An emission is an event together with the set of sockets it is written to.
  \<open>socket.emit\<close> writes to the socket itself, \<open>socket.to(room).emit\<close> to the members of
  the room other than the socket, \<open>io.to(room).emit\<close> to every member of the room.
\<close>

type_synonym emission = "sid set \<times> event"

definition socket_emit :: "socket \<Rightarrow> event \<Rightarrow> emission" where
  "socket_emit sock ev = ({socket_id sock}, ev)"

definition socket_to_emit :: "core \<Rightarrow> socket \<Rightarrow> room \<Rightarrow> event \<Rightarrow> emission" where
  "socket_to_emit s sock r ev = (rooms s r - {socket_id sock}, ev)"

definition io_to_emit :: "core \<Rightarrow> room \<Rightarrow> event \<Rightarrow> emission" where
  "io_to_emit s r ev = (rooms s r, ev)"

definition socket_join :: "core \<Rightarrow> socket \<Rightarrow> room \<Rightarrow> core" where
  "socket_join s sock r = s\<lparr>rooms := (rooms s)(r := insert (socket_id sock) (rooms s r))\<rparr>"

definition socket_leave :: "core \<Rightarrow> socket \<Rightarrow> room \<Rightarrow> core" where
  "socket_leave s sock r = s\<lparr>rooms := (rooms s)(r := rooms s r - {socket_id sock})\<rparr>"

text \<open>The events a list of emissions delivers to one socket, in order.\<close>

definition deliveries :: "emission list \<Rightarrow> sid \<Rightarrow> event list" where
  "deliveries out c = map snd (filter (\<lambda>em. c \<in> fst em) out)"

text \<open>The socket ids that the map \<open>connectedUsers\<close> records.\<close>

definition registered_ids :: "core \<Rightarrow> sid set" where
  "registered_ids s = socketId ` ran (connectedUsers s)"

section \<open>The task store\<close>

text \<open>
  The handlers await Mongoose queries. A query either rejects (the handler's \<open>catch\<close>
  runs) or resolves. Documents are kept in a list; \<open>_id\<close> is unique in MongoDB, so the
  first match of a query by id is the match.

  Before a query by \<open>_id\<close> is sent, Mongoose casts the given string to an ObjectId: a
  string it cannot cast makes the query reject with a \<open>CastError\<close>, and two strings with
  the same cast find the same document. The cast belongs to the library, not to this
  repository, and is a parameter of the store: \<open>Tasks cast ts\<close> is the model \<open>Task\<close> with
  the cast of its \<open>_id\<close> path and the documents of its collection, \<open>Unavailable\<close> a store
  no query reaches. The user id of a socket and of a request is the string form of a
  stored \<open>_id\<close> and is compared as it is.
\<close>

datatype 'a promise = Rejected | Resolved 'a

datatype task_store = Unavailable | Tasks "tid \<Rightarrow> tid option" "task list"

text \<open>
  The \<open>$or\<close> filter of \<open>join:task\<close> and \<open>broadcastUserStatus\<close>: the user is the owner, the
  \<open>user\<close> of some assignee entry or the \<open>user\<close> of some \<open>sharedWith\<close> entry.
\<close>

definition relates :: "task \<Rightarrow> uid \<Rightarrow> bool" where
  "relates t u \<longleftrightarrow>
     owner t = u \<or> list_ex (\<lambda>a. assignee_user a = u) (assignees t)
       \<or> list_ex (\<lambda>sh. shared_user sh = u) (sharedWith t)"

definition findById :: "task_store \<Rightarrow> tid \<Rightarrow> task option promise" where
  "findById db taskId =
     (case db of
        Unavailable \<Rightarrow> Rejected
      | Tasks cast ts \<Rightarrow>
          (case cast taskId of
             None \<Rightarrow> Rejected
           | Some i \<Rightarrow> Resolved (find (\<lambda>t. task_id t = i) ts)))"

definition findOne_related :: "task_store \<Rightarrow> tid \<Rightarrow> uid \<Rightarrow> task option promise" where
  "findOne_related db taskId u =
     (case db of
        Unavailable \<Rightarrow> Rejected
      | Tasks cast ts \<Rightarrow>
          (case cast taskId of
             None \<Rightarrow> Rejected
           | Some i \<Rightarrow> Resolved (find (\<lambda>t. task_id t = i \<and> relates t u) ts)))"

definition find_related :: "task_store \<Rightarrow> uid \<Rightarrow> task list promise" where
  "find_related db u =
     (case db of
        Unavailable \<Rightarrow> Rejected
      | Tasks cast ts \<Rightarrow> Resolved (filter (\<lambda>t. relates t u) ts))"

fun delete_first :: "tid \<Rightarrow> task list \<Rightarrow> task list" where
  "delete_first i [] = []"
| "delete_first i (t # ts) = (if task_id t = i then ts else t # delete_first i ts)"

text \<open>\<open>findByIdAndDelete\<close> is called with the \<open>_id\<close> of a document just read.\<close>

definition findByIdAndDelete :: "task_store \<Rightarrow> tid \<Rightarrow> task_store" where
  "findByIdAndDelete db i =
     (case db of
        Unavailable \<Rightarrow> Unavailable
      | Tasks cast ts \<Rightarrow> Tasks cast (delete_first i ts))"

section \<open>Presence: \<open>broadcastUserStatus\<close>\<close>

text \<open>\<open>Set.prototype.add\<close> on a set kept in insertion order.\<close>

definition set_add :: "'a list \<Rightarrow> 'a \<Rightarrow> 'a list" where
  "set_add xs x = (if x \<in> set xs then xs else xs @ [x])"

definition add_task_collaborators :: "uid \<Rightarrow> task \<Rightarrow> uid list \<Rightarrow> uid list" where
  "add_task_collaborators u t collaborators =
     (let c1 = (if owner t \<noteq> u then set_add collaborators (owner t) else collaborators);
          c2 = fold (\<lambda>assignee c. if assignee_user assignee \<noteq> u
                                    then set_add c (assignee_user assignee) else c)
                 (assignees t) c1
      in fold (\<lambda>shared c. if shared_user shared \<noteq> u
                            then set_add c (shared_user shared) else c)
           (sharedWith t) c2)"

definition collaborators_of :: "task list \<Rightarrow> uid \<Rightarrow> uid list" where
  "collaborators_of collaborativeTasks u =
     fold (add_task_collaborators u) collaborativeTasks []"

text \<open>
  A rejected query is logged and nothing is emitted. The function is \<open>async\<close> and not
  awaited by its callers; its query is taken to be answered at once, in the state its
  caller leaves.
\<close>

definition broadcastUserStatus :: "task_store \<Rightarrow> core \<Rightarrow> uid \<Rightarrow> string \<Rightarrow> emission list" where
  "broadcastUserStatus db s u status =
     (case find_related db u of
        Rejected \<Rightarrow> []
      | Resolved collaborativeTasks \<Rightarrow>
          map (\<lambda>collaboratorId. io_to_emit s (user_room collaboratorId) (UserStatus u status))
            (collaborators_of collaborativeTasks u))"

section \<open>The socket handlers of \<open>setupSocketHandlers\<close>\<close>

text \<open>
  Each handler is a function of the store it queries, the state, the socket it was
  registered for and the fields of its payload, and returns the emissions it makes, with
  the new state where it changes it.
\<close>

text \<open>
  \<open>io.on('connection')\<close>: the server holds the socket as connected, the handler stores
  it under its user id (replacing what was stored there), joins it to the inbox room of
  its user, confirms to the socket and broadcasts the status \<open>online\<close>. Nothing counts
  the connections of a user.
\<close>

definition connection :: "task_store \<Rightarrow> core \<Rightarrow> socket \<Rightarrow> core \<times> emission list" where
  "connection db s sock =
     (let s1 = s\<lparr>sockets := (sockets s)(socket_id sock \<mapsto> sock)\<rparr>;
          s2 = s1\<lparr>connectedUsers := (connectedUsers s1)(userId sock \<mapsto>
                    \<lparr>socketId = socket_id sock, conn_user = user sock\<rparr>)\<rparr>;
          s3 = socket_join s2 sock (user_room (userId sock))
      in (s3, socket_emit sock (Connected (userId sock))
                # broadcastUserStatus db s3 (userId sock) ''online''))"

text \<open>
  \<open>socket.on('join:task')\<close>. The payload is the task id as a string, as the client's
  \<open>joinTaskRoom(taskId: string)\<close> sends it; the room joined is named by that string.
\<close>

definition join_task :: "task_store \<Rightarrow> core \<Rightarrow> socket \<Rightarrow> tid \<Rightarrow> core \<times> emission list" where
  "join_task db s sock taskId =
     (case findOne_related db taskId (userId sock) of
        Rejected \<Rightarrow> (s, [socket_emit sock (ErrorEvent ''Failed to join task room'')])
      | Resolved None \<Rightarrow> (s, [socket_emit sock (ErrorEvent ''Access denied to task room'')])
      | Resolved (Some t) \<Rightarrow>
          (let s1 = socket_join s sock (task_room taskId)
           in (s1, [socket_emit sock (JoinedTask taskId),
                    socket_to_emit s1 sock (task_room taskId)
                      (UserJoined (userId sock) (userName sock) taskId)])))"

text \<open>\<open>socket.on('leave:task')\<close>.\<close>

definition leave_task :: "core \<Rightarrow> socket \<Rightarrow> tid \<Rightarrow> core \<times> emission list" where
  "leave_task s sock taskId =
     (let s1 = socket_leave s sock (task_room taskId)
      in (s1, [socket_to_emit s1 sock (task_room taskId)
                 (UserLeft (userId sock) (userName sock) (Some taskId) None),
               socket_emit sock (LeftTask taskId)]))"

text \<open>\<open>socket.on('task:update')\<close>; \<open>updates\<close> and \<open>action\<close> are passed through as received.\<close>

definition task_update ::
  "task_store \<Rightarrow> core \<Rightarrow> socket \<Rightarrow> tid \<Rightarrow> string \<Rightarrow> string \<Rightarrow> emission list" where
  "task_update db s sock taskId updates action =
     (case findById db taskId of
        Rejected \<Rightarrow> [socket_emit sock (ErrorEvent ''Failed to broadcast task update'')]
      | Resolved None \<Rightarrow> [socket_emit sock (ErrorEvent ''Access denied for task update'')]
      | Resolved (Some t) \<Rightarrow>
          if \<not> hasAccess t (userId sock) Edit
          then [socket_emit sock (ErrorEvent ''Access denied for task update'')]
          else [socket_to_emit s sock (task_room taskId)
                  (TaskUpdated taskId updates action (userId sock) (userName sock))])"

text \<open>
  \<open>socket.on('task:comment')\<close>; the comment object built by the server carries the
  content and the author's id, names and image, and is sent with \<open>io.to\<close>.
\<close>

definition task_comment ::
  "task_store \<Rightarrow> core \<Rightarrow> socket \<Rightarrow> tid \<Rightarrow> string \<Rightarrow> emission list" where
  "task_comment db s sock taskId content =
     (case findById db taskId of
        Rejected \<Rightarrow> [socket_emit sock (ErrorEvent ''Failed to broadcast comment'')]
      | Resolved None \<Rightarrow> [socket_emit sock (ErrorEvent ''Access denied for commenting'')]
      | Resolved (Some t) \<Rightarrow>
          if \<not> hasAccess t (userId sock) View
          then [socket_emit sock (ErrorEvent ''Access denied for commenting'')]
          else [io_to_emit s (task_room taskId)
                  (TaskCommentNew taskId content (userId sock) (firstName (user sock))
                     (lastName (user sock)) (profileImage (user sock)))])"

text \<open>\<open>socket.on('task:typing')\<close>: no query and no call of \<open>hasAccess\<close>.\<close>

definition task_typing :: "core \<Rightarrow> socket \<Rightarrow> tid \<Rightarrow> bool \<Rightarrow> emission list" where
  "task_typing s sock taskId isTyping =
     [socket_to_emit s sock (task_room taskId)
        (TaskTypingStatus taskId (userId sock) (userName sock) isTyping)]"

text \<open>\<open>socket.on('task:status:change')\<close>.\<close>

definition notificationRecipients :: "task \<Rightarrow> socket \<Rightarrow> uid list" where
  "notificationRecipients t sock =
     filter (\<lambda>u. u \<noteq> userId sock)
       (owner t # map assignee_user (assignees t) @ map shared_user (sharedWith t))"

definition status_message :: "task \<Rightarrow> string \<Rightarrow> string" where
  "status_message t toStatus =
     ''Task '' @ [CHR 0x22] @ title t @ [CHR 0x22] @ '' status changed to '' @ toStatus"

definition task_status_change ::
  "task_store \<Rightarrow> core \<Rightarrow> socket \<Rightarrow> tid \<Rightarrow> string \<Rightarrow> string \<Rightarrow> emission list" where
  "task_status_change db s sock taskId fromStatus toStatus =
     (case findById db taskId of
        Rejected \<Rightarrow> [socket_emit sock (ErrorEvent ''Failed to broadcast status change'')]
      | Resolved None \<Rightarrow> [socket_emit sock (ErrorEvent ''Access denied for status change'')]
      | Resolved (Some t) \<Rightarrow>
          if \<not> hasAccess t (userId sock) Edit
          then [socket_emit sock (ErrorEvent ''Access denied for status change'')]
          else socket_to_emit s sock (task_room taskId)
                 (TaskStatusChanged taskId fromStatus toStatus (userId sock) (userName sock))
               # map (\<lambda>u. io_to_emit s (user_room u)
                        (Notification ''task_status_changed'' (status_message t toStatus)
                           taskId (userId sock) (userName sock)))
                   (notificationRecipients t sock))"

text \<open>
  \<open>socket.on('disconnect')\<close>. Socket.IO fires \<open>disconnect\<close> after it has taken the socket
  out of all its rooms and out of its table of connected sockets (\<open>leave_all\<close>), so the
  handler reads an empty \<open>socket.rooms\<close>; the handler itself is written for any list of
  rooms. It deletes the entry of the user, whichever socket of the user is stored there,
  and broadcasts the status \<open>offline\<close>.
\<close>

definition leave_all :: "core \<Rightarrow> socket \<Rightarrow> core" where
  "leave_all s sock =
     s\<lparr>sockets := (sockets s)(socket_id sock := None),
       rooms := (\<lambda>r. rooms s r - {socket_id sock})\<rparr>"

definition startsWith :: "string \<Rightarrow> string \<Rightarrow> bool" where
  "startsWith str p \<longleftrightarrow> take (length p) str = p"

definition disconnect_handler ::
  "task_store \<Rightarrow> core \<Rightarrow> socket \<Rightarrow> room list \<Rightarrow> core \<times> emission list" where
  "disconnect_handler db s sock socket_rooms =
     (let s1 = s\<lparr>connectedUsers := (connectedUsers s)(userId sock := None)\<rparr>
      in (s1, map (\<lambda>r. socket_to_emit s1 sock r
                      (UserLeft (userId sock) (userName sock) None (Some ''disconnected'')))
                (filter (\<lambda>r. startsWith r ''task:'') socket_rooms)
              @ broadcastUserStatus db s1 (userId sock) ''offline''))"

definition disconnect :: "task_store \<Rightarrow> core \<Rightarrow> socket \<Rightarrow> core \<times> emission list" where
  "disconnect db s sock = disconnect_handler db (leave_all s sock) sock []"

section \<open>Reachable states\<close>

text \<open>
  The state changes in the handlers \<open>connection\<close>, \<open>join:task\<close>, \<open>leave:task\<close> and
  \<open>disconnect\<close>. The handlers \<open>connection\<close>, \<open>leave:task\<close> and \<open>disconnect\<close> change it
  before they return. The handler \<open>join:task\<close> first awaits its query: other handlers, the
  \<open>disconnect\<close> of the same socket among them, run before the query is answered, and
  \<open>socket.join\<close> then adds the socket to the room whether or not it is still connected. A
  join is therefore two steps: the request of a connected socket, kept in the list of
  pending joins, and its completion in a later state, on the store as it is then.
  Socket.IO gives every new socket an id that no connected socket has, and delivers
  client events only for connected sockets.
\<close>

inductive reachable :: "core \<Rightarrow> (socket \<times> tid) list \<Rightarrow> bool" where
  r_init: "reachable init_core []"
| r_connection:
    "reachable s pending \<Longrightarrow> sockets s (socket_id sock) = None
       \<Longrightarrow> reachable (fst (connection db s sock)) pending"
| r_join_request:
    "reachable s pending \<Longrightarrow> sockets s (socket_id sock) = Some sock
       \<Longrightarrow> reachable s (pending @ [(sock, taskId)])"
| r_join_complete:
    "reachable s pending \<Longrightarrow> (sock, taskId) \<in> set pending
       \<Longrightarrow> reachable (fst (join_task db s sock taskId)) (remove1 (sock, taskId) pending)"
| r_leave_task:
    "reachable s pending \<Longrightarrow> sockets s (socket_id sock) = Some sock
       \<Longrightarrow> reachable (fst (leave_task s sock taskId)) pending"
| r_disconnect:
    "reachable s pending \<Longrightarrow> sockets s (socket_id sock) = Some sock
       \<Longrightarrow> reachable (fst (disconnect db s sock)) pending"

section \<open>The route \<open>DELETE /api/tasks/:id\<close>\<close>

text \<open>
  \<open>checkTaskAccess(permission)\<close> reads \<open>req.user._id\<close>, which an authentication
  middleware sets. The server mounts the routers of users, AI and analytics behind
  \<open>authenticateToken\<close> and the router of tasks without it (its comment: remove auth
  middleware temporarily for testing): there \<open>req.user\<close> is undefined and the exception is
  answered with status 500, as a rejected query is. The route returns a response and changes the store; it holds no
  reference to the Socket.IO server, so neither the socket state nor an emission is among
  its results.
\<close>

datatype http_response = Response nat string

definition checkTaskAccess ::
  "permission \<Rightarrow> task_store \<Rightarrow> uid option \<Rightarrow> tid \<Rightarrow> http_response + task" where
  "checkTaskAccess perm db req_user taskId =
     (case req_user of
        None \<Rightarrow> Inl (Response 500 ''Permission check failed'')
      | Some u \<Rightarrow>
          (case findById db taskId of
             Rejected \<Rightarrow> Inl (Response 500 ''Permission check failed'')
           | Resolved None \<Rightarrow> Inl (Response 404 ''Task not found'')
           | Resolved (Some t) \<Rightarrow>
               if \<not> hasAccess t u perm
               then Inl (Response 403 ''You do not have permission to access this task'')
               else Inr t))"

definition delete_task_route ::
  "task_store \<Rightarrow> uid option \<Rightarrow> tid \<Rightarrow> http_response \<times> task_store" where
  "delete_task_route db req_user taskId =
     (case checkTaskAccess Admin db req_user taskId of
        Inl r \<Rightarrow> (r, db)
      | Inr t \<Rightarrow>
          if subtasks t \<noteq> []
          then (Response 400 ''Cannot delete task with subtasks. Delete subtasks first.'', db)
          else (Response 200 ''Task deleted successfully'', findByIdAndDelete db (task_id t)))"

section \<open>The invariant of the socket state\<close>

text \<open>
  Every member of an inbox room is a connected socket of that user, every connected
  socket is filed under its own id, and every entry of \<open>connectedUsers\<close> names a connected
  socket of that user.
\<close>

definition core_inv :: "core \<Rightarrow> bool" where
  "core_inv s \<longleftrightarrow>
     (\<forall>u c. c \<in> rooms s (user_room u) \<longrightarrow>
         (\<exists>sock. sockets s c = Some sock \<and> userId sock = u))
   \<and> (\<forall>c sock. sockets s c = Some sock \<longrightarrow> socket_id sock = c)
   \<and> (\<forall>u i. connectedUsers s u = Some i \<longrightarrow>
         (\<exists>sock. sockets s (socketId i) = Some sock \<and> userId sock = u))"

section \<open>The users of a task\<close>

text \<open>
  The owner, the users of the assignee entries and the users of the \<open>sharedWith\<close>
  entries of a task: the users the presence broadcast and the status notification range
  over.
\<close>

definition task_users :: "task \<Rightarrow> uid set" where
  "task_users t =
     insert (owner t) (assignee_user ` set (assignees t) \<union> shared_user ` set (sharedWith t))"

section \<open>A sample deployment\<close>

text \<open>
  The cast of the sample store accepts the 24 hexadecimal digits of an ObjectId, in
  either case, and yields the lower-case form that \<open>toString()\<close> returns; it refuses every
  other string. (Some versions of the driver also cast any string of 12 characters; the
  samples send none.)
\<close>

definition hex_digits :: string where
  "hex_digits = ''0123456789abcdefABCDEF''"

definition lower_hex :: "char \<Rightarrow> char" where
  "lower_hex c = (case map_of (zip ''ABCDEF'' ''abcdef'') c of None \<Rightarrow> c | Some d \<Rightarrow> d)"

definition ex_cast :: "tid \<Rightarrow> tid option" where
  "ex_cast str =
     (if length str = 24 \<and> list_all (\<lambda>c. c \<in> set hex_digits) str
      then Some (map lower_hex str) else None)"

text \<open>
  The ids of the tasks \<open>T1\<close>, \<open>T2\<close> and \<open>T3\<close>, and the id of \<open>T1\<close> as a client may also
  write it. User and socket ids are abbreviated to \<open>u1\<close>, \<open>c1\<close> and so on.
\<close>

definition ex_id1 :: tid where
  "ex_id1 = ''64f1a2b3c4d5e6f708192a01''"

definition ex_id1_upper :: tid where
  "ex_id1_upper = ''64F1A2B3C4D5E6F708192A01''"

definition ex_id2 :: tid where
  "ex_id2 = ''64f1a2b3c4d5e6f708192a02''"

definition ex_id3 :: tid where
  "ex_id3 = ''64f1a2b3c4d5e6f708192a03''"

text \<open>
  Users \<open>u1\<close>, \<open>u2\<close> and \<open>u3\<close>; task \<open>T1\<close> is owned by \<open>u1\<close>, has \<open>u2\<close> as an
  assignee and is shared with \<open>u2\<close> and \<open>u3\<close> at \<open>view\<close>; task \<open>T2\<close> is owned by \<open>u1\<close>
  alone. User \<open>u4\<close> has no relation to either.
\<close>

definition ex_T1 :: task where
  "ex_T1 = \<lparr>task_id = ex_id1, title = ''Report'', owner = ''u1'',
            assignees = [\<lparr>assignee_user = ''u2'', assignee_role = Observer\<rparr>],
            sharedWith = [\<lparr>shared_user = ''u2'', shared_permission = View, sharedBy = ''u1''\<rparr>,
                          \<lparr>shared_user = ''u3'', shared_permission = View, sharedBy = ''u1''\<rparr>],
            subtasks = []\<rparr>"

definition ex_T2 :: task where
  "ex_T2 = \<lparr>task_id = ex_id2, title = ''Notes'', owner = ''u1'',
            assignees = [], sharedWith = [], subtasks = []\<rparr>"

text \<open>
  Task \<open>T3\<close>, owned by \<open>u1\<close>, lists \<open>u3\<close> twice in \<open>sharedWith\<close>, first at \<open>view\<close> and then at
  \<open>admin\<close>: the schema does not ask for distinct users, and the routes that create and
  update a task store the array the client sends.
\<close>

definition ex_T3 :: task where
  "ex_T3 = \<lparr>task_id = ex_id3, title = ''Plan'', owner = ''u1'',
            assignees = [],
            sharedWith = [\<lparr>shared_user = ''u3'', shared_permission = View, sharedBy = ''u1''\<rparr>,
                          \<lparr>shared_user = ''u3'', shared_permission = Admin, sharedBy = ''u1''\<rparr>],
            subtasks = []\<rparr>"

definition ex_db :: task_store where
  "ex_db = Tasks ex_cast [ex_T1, ex_T2]"

definition ex_sock :: "sid \<Rightarrow> uid \<Rightarrow> socket" where
  "ex_sock c u = \<lparr>socket_id = c, userId = u,
                  user = \<lparr>firstName = u, lastName = ''X'', profileImage = []\<rparr>\<rparr>"

text \<open>\<open>u1\<close> is connected on \<open>c1\<close> and \<open>u2\<close> on \<open>c2\<close>; then \<open>u1\<close> opens \<open>c3\<close> as well.\<close>

definition ex_s2 :: core where
  "ex_s2 = fst (connection ex_db (fst (connection ex_db init_core (ex_sock ''c1'' ''u1'')))
                  (ex_sock ''c2'' ''u2''))"

definition ex_s3 :: core where
  "ex_s3 = fst (connection ex_db ex_s2 (ex_sock ''c3'' ''u1''))"

text \<open>In \<open>ex_s2\<close>, both sockets then join the room of \<open>T1\<close>.\<close>

definition ex_room :: core where
  "ex_room = fst (join_task ex_db (fst (join_task ex_db ex_s2 (ex_sock ''c1'' ''u1'') ex_id1))
                    (ex_sock ''c2'' ''u2'') ex_id1)"

text \<open>
  In \<open>ex_s2\<close>, \<open>c2\<close> asks to join the room of \<open>T1\<close> and disconnects while the query is
  awaited; then the query is answered and the join completes.
\<close>

definition ex_gone :: core where
  "ex_gone = fst (disconnect ex_db ex_s2 (ex_sock ''c2'' ''u2''))"

definition ex_stale :: core where
  "ex_stale = fst (join_task ex_db ex_gone (ex_sock ''c2'' ''u2'') ex_id1)"

section \<open>Evaluating the definitions\<close>

lemmas sample_defs = ex_T1_def ex_T2_def ex_db_def ex_sock_def ex_s2_def ex_s3_def ex_room_def

lemmas handler_defs = connection_def join_task_def leave_task_def disconnect_def
  disconnect_handler_def leave_all_def socket_join_def socket_leave_def socket_emit_def
  socket_to_emit_def io_to_emit_def broadcastUserStatus_def find_related_def findById_def
  findOne_related_def relates_def collaborators_of_def add_task_collaborators_def set_add_def
  init_core_def task_room_def user_room_def deliveries_def userName_def

lemma task_room_inject [simp]: "task_room a = task_room b \<longleftrightarrow> a = b"
  by (simp add: task_room_def)

lemma user_room_inject [simp]: "user_room a = user_room b \<longleftrightarrow> a = b"
  by (simp add: user_room_def)

lemma task_room_neq_user_room [simp]: "task_room a \<noteq> user_room b" "user_room b \<noteq> task_room a"
  by (simp_all add: task_room_def user_room_def)

text \<open>The sample cast on the strings the samples send.\<close>

lemma ex_cast_ids [simp]:
  "ex_cast ex_id1 = Some ex_id1" "ex_cast ex_id2 = Some ex_id2"
  "ex_cast ex_id1_upper = Some ex_id1" "ex_cast ''not-an-id'' = None"
  by (simp_all add: ex_cast_def ex_id1_def ex_id2_def ex_id1_upper_def hex_digits_def
      lower_hex_def)

lemma ex_ids_distinct [simp]:
  "ex_id1 \<noteq> ex_id2" "ex_id2 \<noteq> ex_id1" "ex_id1_upper \<noteq> ex_id1" "ex_id1 \<noteq> ex_id1_upper"
  by (simp_all add: ex_id1_def ex_id2_def ex_id1_upper_def)

section \<open>Properties of the access check\<close>

lemma indexOf_permissions: "indexOf permissions p = int (spec_rank p)"
  by (cases p) (simp_all add: indexOf_def permissions_def)

lemma list_ex_assignee_iff:
  "list_ex (\<lambda>assignee. assignee_user assignee = a) xs \<longleftrightarrow> a \<in> assignee_user ` set xs"
  by (auto simp: list_ex_iff)

lemma find_shared_None:
  "a \<notin> shared_user ` set xs \<Longrightarrow> find (\<lambda>share. shared_user share = a) xs = None"
  by (auto simp: find_None_iff)

lemma find_shared_first:
  "a \<notin> shared_user ` set pre \<Longrightarrow> shared_user e = a
     \<Longrightarrow> find (\<lambda>share. shared_user share = a) (pre @ e # post) = Some e"
  by (induction pre) auto

text \<open>
  Claim C1, as the code has it: an actor who is not the owner and appears in the
  assignees of a task is granted \<open>view\<close>, \<open>edit\<close> and also \<open>admin\<close>, whatever the
  \<open>sharedWith\<close> list holds: the assignee rule returns \<open>true\<close> before the required
  permission is looked at.
\<close>

theorem assignee_granted_every_permission:
  assumes "owner t \<noteq> a" and "a \<in> assignee_user ` set (assignees t)"
  shows "hasAccess t a View \<and> hasAccess t a Edit \<and> hasAccess t a Admin"
  using assms by (simp add: hasAccess_def list_ex_assignee_iff)

text \<open>The theorem at task \<open>T1\<close> and its assignee \<open>u2\<close>.\<close>

theorem assignee_granted_every_permission_witness:
  "hasAccess ex_T1 ''u2'' View \<and> hasAccess ex_T1 ''u2'' Edit \<and> hasAccess ex_T1 ''u2'' Admin"
proof -
  have "owner ex_T1 \<noteq> ''u2''" and "''u2'' \<in> assignee_user ` set (assignees ex_T1)"
    by (simp_all add: ex_T1_def)
  then show ?thesis by (rule assignee_granted_every_permission)
qed

text \<open>
  Claim C1 as stated fails: \<open>u2\<close> is not the owner of \<open>T1\<close>, is one of its assignees (with
  a \<open>sharedWith\<close> entry at \<open>view\<close> besides), and is granted \<open>admin\<close>.
\<close>

theorem assignee_admin_counterexample:
  "owner ex_T1 \<noteq> ''u2'' \<and> ''u2'' \<in> assignee_user ` set (assignees ex_T1)
     \<and> hasAccess ex_T1 ''u2'' Admin"
  by (simp add: ex_T1_def hasAccess_def)

text \<open>
  Claim C7, as the code has it: for an actor \<open>A\<close> who is neither the owner nor an assignee,
  the first \<open>sharedWith\<close> entry of \<open>A\<close> decides: with permission \<open>p\<close> in that entry, a
  required permission is granted exactly when its rank is at most the rank of \<open>p\<close>, whatever
  later entries of \<open>A\<close> say; and without an entry every permission is denied.
\<close>

theorem shared_access_by_first_entry:
  assumes "owner t \<noteq> a" and "a \<notin> assignee_user ` set (assignees t)"
  shows "(sharedWith t = pre @ e # post \<and> a \<notin> shared_user ` set pre \<and> shared_user e = a
            \<longrightarrow> (hasAccess t a required
                   \<longleftrightarrow> spec_rank (shared_permission e) \<ge> spec_rank required))
       \<and> (a \<notin> shared_user ` set (sharedWith t) \<longrightarrow> \<not> hasAccess t a required)"
proof (intro conjI impI)
  assume "sharedWith t = pre @ e # post \<and> a \<notin> shared_user ` set pre \<and> shared_user e = a"
  then have "find (\<lambda>share. shared_user share = a) (sharedWith t) = Some e"
    by (simp add: find_shared_first)
  with assms
  show "hasAccess t a required \<longleftrightarrow> spec_rank (shared_permission e) \<ge> spec_rank required"
    by (simp add: hasAccess_def list_ex_assignee_iff indexOf_permissions)
next
  assume "a \<notin> shared_user ` set (sharedWith t)"
  with assms show "\<not> hasAccess t a required"
    by (simp add: hasAccess_def list_ex_assignee_iff find_shared_None)
qed

text \<open>
  The theorem at task \<open>T3\<close>: the first entry of \<open>u3\<close> holds \<open>view\<close>, so \<open>u3\<close> is denied \<open>edit\<close>;
  \<open>u4\<close> has no entry and is denied \<open>view\<close>.
\<close>

theorem shared_access_by_first_entry_witness:
  "(hasAccess ex_T3 ''u3'' Edit \<longleftrightarrow> spec_rank View \<ge> spec_rank Edit)
     \<and> \<not> hasAccess ex_T3 ''u4'' View"
proof -
  have "owner ex_T3 \<noteq> ''u3''" and "''u3'' \<notin> assignee_user ` set (assignees ex_T3)"
    by (simp_all add: ex_T3_def)
  from shared_access_by_first_entry [OF this,
      of "[]" "\<lparr>shared_user = ''u3'', shared_permission = View, sharedBy = ''u1''\<rparr>"
         "[\<lparr>shared_user = ''u3'', shared_permission = Admin, sharedBy = ''u1''\<rparr>]" Edit]
  have a: "hasAccess ex_T3 ''u3'' Edit \<longleftrightarrow> spec_rank View \<ge> spec_rank Edit"
    by (simp add: ex_T3_def)
  have "owner ex_T3 \<noteq> ''u4''" and "''u4'' \<notin> assignee_user ` set (assignees ex_T3)"
    by (simp_all add: ex_T3_def)
  from shared_access_by_first_entry [OF this,
      of "[]" "\<lparr>shared_user = ''u3'', shared_permission = View, sharedBy = ''u1''\<rparr>"
         "[\<lparr>shared_user = ''u3'', shared_permission = Admin, sharedBy = ''u1''\<rparr>]" View]
  have "\<not> hasAccess ex_T3 ''u4'' View"
    by (simp add: ex_T3_def)
  with a show ?thesis by simp
qed

text \<open>
  Claim C7 as stated fails: \<open>u3\<close> is neither the owner nor an assignee of \<open>T3\<close> and appears
  in its \<open>sharedWith\<close> with permission \<open>admin\<close>, whose rank is at least the rank of \<open>admin\<close>,
  and yet \<open>admin\<close> is denied: an earlier entry of \<open>u3\<close> holds \<open>view\<close>.
\<close>

theorem shared_later_entry_counterexample:
  "owner ex_T3 \<noteq> ''u3'' \<and> ''u3'' \<notin> assignee_user ` set (assignees ex_T3)
     \<and> \<lparr>shared_user = ''u3'', shared_permission = Admin, sharedBy = ''u1''\<rparr>
          \<in> set (sharedWith ex_T3)
     \<and> spec_rank Admin \<ge> spec_rank Admin
     \<and> \<not> hasAccess ex_T3 ''u3'' Admin"
  by (simp add: ex_T3_def hasAccess_def indexOf_def permissions_def)

section \<open>Presence\<close>

lemma set_set_add: "set (set_add xs x) = insert x (set xs)"
  by (auto simp: set_add_def)

lemma set_fold_add_others:
  "set (fold (\<lambda>x c. if f x \<noteq> u then set_add c (f x) else c) xs acc)
     = set acc \<union> (f ` set xs - {u})"
  by (induction xs arbitrary: acc) (auto simp: set_set_add)

lemma set_add_task_collaborators:
  "set (add_task_collaborators u t acc) = set acc \<union> (task_users t - {u})"
  by (auto simp: add_task_collaborators_def Let_def set_fold_add_others set_set_add task_users_def)

lemma set_fold_add_task_collaborators:
  "set (fold (add_task_collaborators u) ts acc) = set acc \<union> ((\<Union>t\<in>set ts. task_users t) - {u})"
  by (induction ts arbitrary: acc) (auto simp: set_add_task_collaborators)

lemma set_collaborators_of:
  "set (collaborators_of ts u) = (\<Union>t\<in>set ts. task_users t) - {u}"
  by (simp add: collaborators_of_def set_fold_add_task_collaborators)

lemma rooms_connection_other:
  "k \<noteq> userId sock \<Longrightarrow> rooms (fst (connection db s sock)) (user_room k) = rooms s (user_room k)"
  by (simp add: connection_def Let_def socket_join_def)

lemma rooms_disconnect:
  "rooms (fst (disconnect db s sock)) r = rooms s r - {socket_id sock}"
  by (simp add: disconnect_def disconnect_handler_def Let_def leave_all_def)

text \<open>
  Claim C2, as the code has it: whenever the query of the presence broadcast is answered,
  every registration of a connection of a user, the first or an additional one, broadcasts
  the status \<open>online\<close> to the inbox room of each collaborator of the user, and every
  disconnection, of the last connection or of one among several, broadcasts \<open>offline\<close>; when
  the query is rejected, the registration emits its confirmation only and the disconnection
  nothing. The states \<open>s\<close> and \<open>s'\<close> are arbitrary: the handlers do not look at how many
  connections the user has.
\<close>

theorem presence_broadcast_on_every_connection:
  assumes "t \<in> set ts" and "relates t (userId sock)"
    and "k \<in> task_users t" and "k \<noteq> userId sock"
  shows "(rooms s (user_room k), UserStatus (userId sock) ''online'')
           \<in> set (snd (connection (Tasks cast ts) s sock))
       \<and> (rooms s' (user_room k) - {socket_id sock}, UserStatus (userId sock) ''offline'')
           \<in> set (snd (disconnect (Tasks cast ts) s' sock))
       \<and> snd (connection Unavailable s sock) = [({socket_id sock}, Connected (userId sock))]
       \<and> snd (disconnect Unavailable s' sock) = []"
proof -
  from assms have k:
    "k \<in> set (collaborators_of (filter (\<lambda>t. relates t (userId sock)) ts) (userId sock))"
    by (auto simp: set_collaborators_of)
  have "(rooms (fst (connection (Tasks cast ts) s sock)) (user_room k),
          UserStatus (userId sock) ''online'')
           \<in> set (snd (connection (Tasks cast ts) s sock))"
    using k
    by (auto simp: connection_def Let_def broadcastUserStatus_def find_related_def io_to_emit_def)
  moreover have "(rooms (fst (disconnect (Tasks cast ts) s' sock)) (user_room k),
          UserStatus (userId sock) ''offline'')
           \<in> set (snd (disconnect (Tasks cast ts) s' sock))"
    using k
    by (auto simp: disconnect_def disconnect_handler_def Let_def broadcastUserStatus_def
        find_related_def io_to_emit_def)
  moreover have "snd (connection Unavailable s sock) = [({socket_id sock}, Connected (userId sock))]"
    by (simp add: connection_def Let_def broadcastUserStatus_def find_related_def socket_emit_def)
  moreover have "snd (disconnect Unavailable s' sock) = []"
    by (simp add: disconnect_def disconnect_handler_def Let_def broadcastUserStatus_def
        find_related_def)
  ultimately show ?thesis
    using assms(4) by (simp add: rooms_connection_other rooms_disconnect)
qed

text \<open>
  The theorem with \<open>u1\<close> connected on \<open>c1\<close> and \<open>u2\<close> on \<open>c2\<close>, for a further socket \<open>c3\<close> of
  \<open>u1\<close> that connects and then disconnects, and the collaborator \<open>u2\<close>.
\<close>

theorem presence_broadcast_on_every_connection_witness:
  "({''c2''}, UserStatus ''u1'' ''online'')
      \<in> set (snd (connection ex_db ex_s2 (ex_sock ''c3'' ''u1'')))
   \<and> ({''c2''}, UserStatus ''u1'' ''offline'')
      \<in> set (snd (disconnect ex_db ex_s3 (ex_sock ''c3'' ''u1'')))
   \<and> snd (connection Unavailable ex_s2 (ex_sock ''c3'' ''u1'')) = [({''c3''}, Connected ''u1'')]
   \<and> snd (disconnect Unavailable ex_s3 (ex_sock ''c3'' ''u1'')) = []"
proof -
  have "ex_T1 \<in> set [ex_T1, ex_T2]" by simp
  moreover have "relates ex_T1 (userId (ex_sock ''c3'' ''u1''))"
    by (simp add: relates_def ex_T1_def ex_sock_def)
  moreover have "''u2'' \<in> task_users ex_T1"
    by (simp add: task_users_def ex_T1_def)
  moreover have "''u2'' \<noteq> userId (ex_sock ''c3'' ''u1'')"
    by (simp add: ex_sock_def)
  ultimately have
    "(rooms ex_s2 (user_room ''u2''), UserStatus (userId (ex_sock ''c3'' ''u1'')) ''online'')
        \<in> set (snd (connection (Tasks ex_cast [ex_T1, ex_T2]) ex_s2 (ex_sock ''c3'' ''u1'')))
     \<and> (rooms ex_s3 (user_room ''u2'') - {socket_id (ex_sock ''c3'' ''u1'')},
          UserStatus (userId (ex_sock ''c3'' ''u1'')) ''offline'')
        \<in> set (snd (disconnect (Tasks ex_cast [ex_T1, ex_T2]) ex_s3 (ex_sock ''c3'' ''u1'')))
     \<and> snd (connection Unavailable ex_s2 (ex_sock ''c3'' ''u1''))
         = [({socket_id (ex_sock ''c3'' ''u1'')}, Connected (userId (ex_sock ''c3'' ''u1'')))]
     \<and> snd (disconnect Unavailable ex_s3 (ex_sock ''c3'' ''u1'')) = []"
    by (rule presence_broadcast_on_every_connection)
  moreover have "rooms ex_s2 (user_room ''u2'') = {''c2''}"
    by (simp add: sample_defs handler_defs)
  moreover have "rooms ex_s3 (user_room ''u2'') = {''c2''}"
    by (simp add: sample_defs handler_defs)
  moreover have "userId (ex_sock ''c3'' ''u1'') = ''u1''"
    "socket_id (ex_sock ''c3'' ''u1'') = ''c3''"
    by (simp_all add: ex_sock_def)
  ultimately show ?thesis by (simp add: ex_db_def)
qed

text \<open>
  Claim C2 as stated fails: \<open>u1\<close> has the one connection \<open>c1\<close>; when \<open>u1\<close> connects a second
  socket \<open>c3\<close>, the socket \<open>c2\<close> of the collaborator \<open>u2\<close> is sent \<open>online\<close> again, and when
  \<open>c3\<close> disconnects while \<open>c1\<close> stays, \<open>c2\<close> is sent \<open>offline\<close>.
\<close>

theorem presence_second_connection_counterexample:
  "sockets ex_s2 ''c1'' = Some (ex_sock ''c1'' ''u1'')
     \<and> deliveries (snd (connection ex_db ex_s2 (ex_sock ''c3'' ''u1''))) ''c2''
         = [UserStatus ''u1'' ''online'']
     \<and> deliveries (snd (disconnect ex_db ex_s3 (ex_sock ''c3'' ''u1''))) ''c2''
         = [UserStatus ''u1'' ''offline'']"
  by (simp add: sample_defs handler_defs)

section \<open>Inbox rooms and the map of connected users\<close>

text \<open>What each handler does to the three components of the state.\<close>

lemma connection_state:
  "sockets (fst (connection db s sock)) = (sockets s)(socket_id sock \<mapsto> sock)"
  "connectedUsers (fst (connection db s sock)) = (connectedUsers s)(userId sock \<mapsto>
      \<lparr>socketId = socket_id sock, conn_user = user sock\<rparr>)"
  "rooms (fst (connection db s sock)) = (rooms s)(user_room (userId sock) :=
      insert (socket_id sock) (rooms s (user_room (userId sock))))"
  by (simp_all add: connection_def Let_def socket_join_def)

lemma join_task_state:
  "sockets (fst (join_task db s sock taskId)) = sockets s"
  "connectedUsers (fst (join_task db s sock taskId)) = connectedUsers s"
  "rooms (fst (join_task db s sock taskId)) (user_room u) = rooms s (user_room u)"
  by (simp_all add: join_task_def Let_def socket_join_def split: promise.splits option.splits)

lemma leave_task_state:
  "sockets (fst (leave_task s sock taskId)) = sockets s"
  "connectedUsers (fst (leave_task s sock taskId)) = connectedUsers s"
  "rooms (fst (leave_task s sock taskId)) (user_room u) = rooms s (user_room u)"
  by (simp_all add: leave_task_def Let_def socket_leave_def)

lemma disconnect_state:
  "sockets (fst (disconnect db s sock)) = (sockets s)(socket_id sock := None)"
  "connectedUsers (fst (disconnect db s sock)) = (connectedUsers s)(userId sock := None)"
  "rooms (fst (disconnect db s sock)) = (\<lambda>r. rooms s r - {socket_id sock})"
  by (simp_all add: disconnect_def disconnect_handler_def Let_def leave_all_def)

text \<open>The handlers keep \<open>core_inv\<close>; a join may complete for a socket that is gone.\<close>

lemma core_inv_init: "core_inv init_core"
  by (simp add: core_inv_def init_core_def)

lemma core_inv_connection:
  assumes "core_inv s" and "sockets s (socket_id sock) = None"
  shows "core_inv (fst (connection db s sock))"
proof -
  let ?s' = "fst (connection db s sock)"
  note st = connection_state [of db s sock]
  have "\<exists>sock'. sockets ?s' c = Some sock' \<and> userId sock' = u"
    if "c \<in> rooms ?s' (user_room u)" for u c
  proof (cases "c = socket_id sock")
    case True
    have "u = userId sock"
    proof (rule ccontr)
      assume "u \<noteq> userId sock"
      with that have "c \<in> rooms s (user_room u)" by (simp add: st)
      with assms(1) have "sockets s c \<noteq> None" unfolding core_inv_def by blast
      with True assms(2) show False by simp
    qed
    with True show ?thesis by (simp add: st)
  next
    case False
    with that have "c \<in> rooms s (user_room u)" by (auto simp: st split: if_splits)
    with assms(1) obtain sock' where "sockets s c = Some sock'" "userId sock' = u"
      unfolding core_inv_def by blast
    with False show ?thesis by (simp add: st)
  qed
  moreover have "socket_id sock' = c" if "sockets ?s' c = Some sock'" for c sock'
    using that assms(1) by (auto simp: st core_inv_def split: if_splits)
  moreover have "\<exists>sock'. sockets ?s' (socketId i) = Some sock' \<and> userId sock' = u"
    if "connectedUsers ?s' u = Some i" for u i
  proof (cases "u = userId sock")
    case True
    with that have "socketId i = socket_id sock" by (auto simp: st)
    with True show ?thesis by (simp add: st)
  next
    case False
    with that have "connectedUsers s u = Some i" by (simp add: st)
    with assms(1) obtain sock' where s': "sockets s (socketId i) = Some sock'" "userId sock' = u"
      unfolding core_inv_def by blast
    with assms(2) have "socketId i \<noteq> socket_id sock" by auto
    with s' show ?thesis by (simp add: st)
  qed
  ultimately show ?thesis unfolding core_inv_def by blast
qed

lemma core_inv_same:
  assumes "core_inv s" and "sockets s' = sockets s" and "connectedUsers s' = connectedUsers s"
    and "\<And>u. rooms s' (user_room u) = rooms s (user_room u)"
  shows "core_inv s'"
  using assms unfolding core_inv_def by simp

lemma core_inv_join_task:
  assumes "core_inv s"
  shows "core_inv (fst (join_task db s sock taskId))"
  using assms by (rule core_inv_same) (rule join_task_state)+

lemma core_inv_leave_task:
  assumes "core_inv s"
  shows "core_inv (fst (leave_task s sock taskId))"
  using assms by (rule core_inv_same) (rule leave_task_state)+

lemma core_inv_disconnect:
  assumes "core_inv s" and "sockets s (socket_id sock) = Some sock"
  shows "core_inv (fst (disconnect db s sock))"
proof -
  let ?s' = "fst (disconnect db s sock)"
  note st = disconnect_state [of db s sock]
  have "\<exists>sock'. sockets ?s' c = Some sock' \<and> userId sock' = u"
    if "c \<in> rooms ?s' (user_room u)" for u c
  proof -
    from that have c: "c \<noteq> socket_id sock" "c \<in> rooms s (user_room u)"
      by (simp_all add: st)
    with assms(1) obtain sock' where "sockets s c = Some sock'" "userId sock' = u"
      unfolding core_inv_def by blast
    with c show ?thesis by (simp add: st)
  qed
  moreover have "socket_id sock' = c" if "sockets ?s' c = Some sock'" for c sock'
    using that assms(1) by (auto simp: st core_inv_def split: if_splits)
  moreover have "\<exists>sock'. sockets ?s' (socketId i) = Some sock' \<and> userId sock' = u"
    if "connectedUsers ?s' u = Some i" for u i
  proof -
    from that have u: "u \<noteq> userId sock" and i: "connectedUsers s u = Some i"
      by (auto simp: st split: if_splits)
    from i assms(1) obtain sock' where s': "sockets s (socketId i) = Some sock'" "userId sock' = u"
      unfolding core_inv_def by blast
    with u assms(2) have "socketId i \<noteq> socket_id sock" by auto
    with s' show ?thesis by (simp add: st)
  qed
  ultimately show ?thesis unfolding core_inv_def by blast
qed

lemma reachable_core_inv: "reachable s pending \<Longrightarrow> core_inv s"
proof (induction rule: reachable.induct)
  case r_init
  show ?case by (rule core_inv_init)
next
  case (r_connection s pending sock db)
  then show ?case by (simp add: core_inv_connection)
next
  case (r_join_request s pending sock taskId)
  then show ?case by simp
next
  case (r_join_complete s pending sock taskId db)
  then show ?case by (simp add: core_inv_join_task)
next
  case (r_leave_task s pending sock taskId)
  then show ?case by (simp add: core_inv_leave_task)
next
  case (r_disconnect s pending sock db)
  then show ?case by (simp add: core_inv_disconnect)
qed

text \<open>
  Claim C3, as the code has it: in every reachable state, every connection identifier in
  the membership set of an inbox room \<open>user:<id>\<close> is a socket currently connected to the
  server and belonging to that user, and every socket id that \<open>connectedUsers\<close> records for
  a user is a currently connected socket of that user.
\<close>

theorem inbox_members_are_connected_sockets:
  assumes "reachable s pending"
  shows "(c \<in> rooms s (user_room u)
            \<longrightarrow> (\<exists>sock. sockets s c = Some sock \<and> socket_id sock = c \<and> userId sock = u))
       \<and> (connectedUsers s u = Some i
            \<longrightarrow> (\<exists>sock. sockets s (socketId i) = Some sock
                    \<and> socket_id sock = socketId i \<and> userId sock = u))"
proof -
  from assms have inv: "core_inv s" by (rule reachable_core_inv)
  have "\<exists>sock. sockets s c = Some sock \<and> socket_id sock = c \<and> userId sock = u"
    if "c \<in> rooms s (user_room u)"
    using that inv unfolding core_inv_def by metis
  moreover have "\<exists>sock. sockets s (socketId i) = Some sock
                    \<and> socket_id sock = socketId i \<and> userId sock = u"
    if "connectedUsers s u = Some i"
    using that inv unfolding core_inv_def by metis
  ultimately show ?thesis by blast
qed

text \<open>The sample states are reachable, with no join pending.\<close>

lemma sockets_ex_s2:
  "sockets ex_s2 ''c1'' = Some (ex_sock ''c1'' ''u1'')"
  "sockets ex_s2 ''c2'' = Some (ex_sock ''c2'' ''u2'')"
  "sockets ex_s2 ''c3'' = None"
  by (simp_all add: ex_s2_def connection_state init_core_def ex_sock_def)

lemma reachable_ex_s2: "reachable ex_s2 []"
proof -
  have 1: "reachable (fst (connection ex_db init_core (ex_sock ''c1'' ''u1''))) []"
    by (rule r_connection [OF r_init]) (simp add: init_core_def)
  show ?thesis unfolding ex_s2_def
    by (rule r_connection [OF 1]) (simp add: connection_state init_core_def ex_sock_def)
qed

lemma reachable_ex_s3: "reachable ex_s3 []"
  unfolding ex_s3_def
  by (rule r_connection [OF reachable_ex_s2]) (simp add: sockets_ex_s2 ex_sock_def)

lemma reachable_ex_stale: "reachable ex_stale []"
proof -
  let ?sock = "ex_sock ''c2'' ''u2''"
  have live: "sockets ex_s2 (socket_id ?sock) = Some ?sock"
    by (simp add: sockets_ex_s2 ex_sock_def)
  have "reachable ex_s2 ([] @ [(?sock, ex_id1)])"
    by (rule r_join_request [OF reachable_ex_s2 live])
  then have "reachable ex_gone [(?sock, ex_id1)]"
    unfolding ex_gone_def using live by (simp add: r_disconnect)
  then have "reachable (fst (join_task ex_db ex_gone ?sock ex_id1))
               (remove1 (?sock, ex_id1) [(?sock, ex_id1)])"
    by (rule r_join_complete) simp
  then show ?thesis by (simp add: ex_stale_def)
qed

lemma registered_ids_iff:
  "c \<in> registered_ids s \<longleftrightarrow> (\<exists>u i. connectedUsers s u = Some i \<and> socketId i = c)"
  by (auto simp: registered_ids_def ran_def)

lemma connectedUsers_ex_s3:
  "connectedUsers ex_s3 =
     [''u2'' \<mapsto> \<lparr>socketId = ''c2'', conn_user = user (ex_sock ''c2'' ''u2'')\<rparr>,
      ''u1'' \<mapsto> \<lparr>socketId = ''c3'', conn_user = user (ex_sock ''c3'' ''u1'')\<rparr>]"
  by (rule ext) (simp add: ex_s3_def ex_s2_def connection_state init_core_def ex_sock_def)

lemma rooms_ex_s3: "rooms ex_s3 (user_room ''u1'') = {''c1'', ''c3''}"
  by (auto simp: ex_s3_def ex_s2_def connection_state init_core_def ex_sock_def)

lemma findOne_related_ex_T1:
  "findOne_related ex_db ex_id1 ''u1'' = Resolved (Some ex_T1)"
  "findOne_related ex_db ex_id1 ''u2'' = Resolved (Some ex_T1)"
  "findOne_related ex_db ex_id1_upper ''u1'' = Resolved (Some ex_T1)"
  by (simp_all add: findOne_related_def ex_db_def ex_T1_def relates_def)

lemma ex_stale_state:
  "rooms ex_stale (task_room ex_id1) = {''c2''}"
  "sockets ex_stale ''c2'' = None"
  "connectedUsers ex_stale =
     [''u1'' \<mapsto> \<lparr>socketId = ''c1'', conn_user = user (ex_sock ''c1'' ''u1'')\<rparr>]"
proof -
  have "rooms ex_gone (task_room ex_id1) = {}"
    by (simp add: ex_gone_def disconnect_state ex_s2_def connection_state init_core_def)
  then show "rooms ex_stale (task_room ex_id1) = {''c2''}"
    by (simp add: ex_stale_def join_task_def findOne_related_ex_T1 ex_sock_def Let_def
        socket_join_def)
  show "sockets ex_stale ''c2'' = None"
    by (simp add: ex_stale_def join_task_state ex_gone_def disconnect_state ex_sock_def)
  show "connectedUsers ex_stale =
     [''u1'' \<mapsto> \<lparr>socketId = ''c1'', conn_user = user (ex_sock ''c1'' ''u1'')\<rparr>]"
    by (rule ext)
      (simp add: ex_stale_def join_task_state ex_gone_def disconnect_state ex_s2_def
        connection_state init_core_def ex_sock_def)
qed

text \<open>
  The theorem in the state where \<open>u1\<close> has the two connections \<open>c1\<close> and \<open>c3\<close>, for \<open>c1\<close> in
  the inbox room of \<open>u1\<close> and for the entry of \<open>u1\<close> in \<open>connectedUsers\<close>, which names \<open>c3\<close>.
\<close>

theorem inbox_members_are_connected_sockets_witness:
  "''c1'' \<in> rooms ex_s3 (user_room ''u1'')
     \<and> (\<exists>sock. sockets ex_s3 ''c1'' = Some sock \<and> socket_id sock = ''c1'' \<and> userId sock = ''u1'')
     \<and> (\<exists>sock. sockets ex_s3 ''c3'' = Some sock \<and> socket_id sock = ''c3'' \<and> userId sock = ''u1'')"
proof -
  have "''c1'' \<in> rooms ex_s3 (user_room ''u1'')"
    by (simp add: rooms_ex_s3)
  moreover have "connectedUsers ex_s3 ''u1''
      = Some \<lparr>socketId = ''c3'', conn_user = user (ex_sock ''c3'' ''u1'')\<rparr>"
    by (simp add: connectedUsers_ex_s3)
  ultimately show ?thesis
    using inbox_members_are_connected_sockets [OF reachable_ex_s3,
        of "''c1''" "''u1''" "\<lparr>socketId = ''c3'', conn_user = user (ex_sock ''c3'' ''u1'')\<rparr>"]
    by simp
qed

text \<open>
  Claim C3 as stated fails, in two reachable states. Once \<open>u1\<close> has registered the second
  connection \<open>c3\<close>, the first one, \<open>c1\<close>, is a member of the room \<open>user:u1\<close> and is not
  recorded in \<open>connectedUsers\<close>. And when \<open>c2\<close> disconnects while its \<open>join:task\<close> for \<open>T1\<close>
  awaits the store, the completed join leaves \<open>c2\<close> in the room of \<open>T1\<close>, neither recorded
  in \<open>connectedUsers\<close> nor connected.
\<close>

theorem registry_misses_room_member_counterexample:
  "reachable ex_s3 []
     \<and> ''c1'' \<in> rooms ex_s3 (user_room ''u1'') \<and> ''c1'' \<notin> registered_ids ex_s3
     \<and> reachable ex_stale []
     \<and> ''c2'' \<in> rooms ex_stale (task_room ex_id1) \<and> ''c2'' \<notin> registered_ids ex_stale
     \<and> sockets ex_stale ''c2'' = None"
proof -
  have "''c1'' \<in> rooms ex_s3 (user_room ''u1'')"
    by (simp add: rooms_ex_s3)
  moreover have "''c1'' \<notin> registered_ids ex_s3"
    by (auto simp: registered_ids_iff connectedUsers_ex_s3 split: if_splits)
  moreover have "''c2'' \<in> rooms ex_stale (task_room ex_id1)"
    by (simp add: ex_stale_state)
  moreover have "''c2'' \<notin> registered_ids ex_stale"
    by (auto simp: registered_ids_iff ex_stale_state split: if_splits)
  ultimately show ?thesis
    using reachable_ex_s3 reachable_ex_stale by (simp add: ex_stale_state)
qed

section \<open>Joining a task room\<close>

text \<open>A user the \<open>$or\<close> filter of \<open>join:task\<close> accepts passes \<open>hasAccess\<close> at \<open>view\<close>.\<close>

lemma relates_hasAccess_View:
  assumes "relates t u"
  shows "hasAccess t u View"
proof (cases "find (\<lambda>share. shared_user share = u) (sharedWith t)")
  case None
  with assms show ?thesis
    by (auto simp: relates_def hasAccess_def find_None_iff list_ex_iff)
next
  case (Some e)
  then show ?thesis
    by (cases "shared_permission e") (simp_all add: hasAccess_def indexOf_def permissions_def)
qed

lemma findOne_related_none:
  assumes "\<forall>t\<in>set ts. cast taskId = Some (task_id t) \<longrightarrow> \<not> hasAccess t u View"
    and "cast taskId = Some i"
  shows "findOne_related (Tasks cast ts) taskId u = Resolved None"
  using assms relates_hasAccess_View
  by (auto simp: findOne_related_def find_None_iff)

text \<open>
  Claim C5: when the user of a connection has no \<open>view\<close> access to task \<open>T\<close> (not owner, not
  assignee, not in \<open>sharedWith\<close> of a document the given id is cast to), \<open>join:task\<close> is
  denied: the state, and with it the membership of room \<open>task:T\<close>, is what it was, one
  \<open>error\<close> event is emitted to the requesting connection, and no other connection is
  delivered anything. The message is that of the refusal when the store answers, and that
  of the \<open>catch\<close> when the id cannot be cast or the store does not answer.
\<close>

theorem join_denied_without_view_access:
  assumes "\<forall>t\<in>set ts. cast taskId = Some (task_id t) \<longrightarrow> \<not> hasAccess t (userId sock) View"
  shows "fst (join_task (Tasks cast ts) s sock taskId) = s
       \<and> snd (join_task (Tasks cast ts) s sock taskId)
           = [({socket_id sock},
               ErrorEvent (if cast taskId = None then ''Failed to join task room''
                           else ''Access denied to task room''))]
       \<and> deliveries (snd (join_task (Tasks cast ts) s sock taskId)) c
           = (if c = socket_id sock
              then [ErrorEvent (if cast taskId = None then ''Failed to join task room''
                                else ''Access denied to task room'')]
              else [])
       \<and> rooms (fst (join_task (Tasks cast ts) s sock taskId)) (task_room taskId)
           = rooms s (task_room taskId)
       \<and> join_task Unavailable s sock taskId
           = (s, [({socket_id sock}, ErrorEvent ''Failed to join task room'')])"
proof (cases "cast taskId")
  case None
  then show ?thesis
    by (simp add: join_task_def findOne_related_def socket_emit_def deliveries_def)
next
  case (Some i)
  with findOne_related_none [where cast = cast and taskId = taskId, OF assms Some]
  show ?thesis
    by (simp add: join_task_def findOne_related_def socket_emit_def deliveries_def)
qed

text \<open>
  The theorem for \<open>u2\<close> on \<open>c2\<close> asking to join the room of \<open>T2\<close>, which \<open>u1\<close> owns alone:
  the room stays as it was and \<open>c1\<close> is delivered nothing; and for \<open>u2\<close> sending a string
  that is no id.
\<close>

theorem join_denied_without_view_access_witness:
  "fst (join_task ex_db ex_s2 (ex_sock ''c2'' ''u2'') ex_id2) = ex_s2
     \<and> snd (join_task ex_db ex_s2 (ex_sock ''c2'' ''u2'') ex_id2)
         = [({''c2''}, ErrorEvent ''Access denied to task room'')]
     \<and> deliveries (snd (join_task ex_db ex_s2 (ex_sock ''c2'' ''u2'') ex_id2)) ''c1'' = []
     \<and> rooms (fst (join_task ex_db ex_s2 (ex_sock ''c2'' ''u2'') ex_id2)) (task_room ex_id2)
         = rooms ex_s2 (task_room ex_id2)
     \<and> snd (join_task ex_db ex_s2 (ex_sock ''c2'' ''u2'') ''not-an-id'')
         = [({''c2''}, ErrorEvent ''Failed to join task room'')]"
proof -
  have "\<forall>t\<in>set [ex_T1, ex_T2]. ex_cast ex_id2 = Some (task_id t)
          \<longrightarrow> \<not> hasAccess t (userId (ex_sock ''c2'' ''u2'')) View"
    by (simp add: ex_T1_def ex_T2_def ex_sock_def hasAccess_def)
  from join_denied_without_view_access
         [where cast = ex_cast and taskId = ex_id2 and s = ex_s2 and c = "''c1''", OF this]
  have a: "fst (join_task ex_db ex_s2 (ex_sock ''c2'' ''u2'') ex_id2) = ex_s2
     \<and> snd (join_task ex_db ex_s2 (ex_sock ''c2'' ''u2'') ex_id2)
         = [({''c2''}, ErrorEvent ''Access denied to task room'')]
     \<and> deliveries (snd (join_task ex_db ex_s2 (ex_sock ''c2'' ''u2'') ex_id2)) ''c1'' = []
     \<and> rooms (fst (join_task ex_db ex_s2 (ex_sock ''c2'' ''u2'') ex_id2)) (task_room ex_id2)
         = rooms ex_s2 (task_room ex_id2)"
    by (simp add: ex_db_def ex_sock_def deliveries_def)
  have "\<forall>t\<in>set [ex_T1, ex_T2]. ex_cast ''not-an-id'' = Some (task_id t)
          \<longrightarrow> \<not> hasAccess t (userId (ex_sock ''c2'' ''u2'')) View"
    by simp
  from join_denied_without_view_access
         [where cast = ex_cast and taskId = "''not-an-id''" and s = ex_s2 and c = "''c1''",
          OF this]
  have "snd (join_task ex_db ex_s2 (ex_sock ''c2'' ''u2'') ''not-an-id'')
         = [({''c2''}, ErrorEvent ''Failed to join task room'')]"
    by (simp add: ex_db_def ex_sock_def)
  with a show ?thesis by blast
qed

text \<open>
  A user with access who writes the id of \<open>T1\<close> in upper case is admitted: the query finds
  \<open>T1\<close>, and the room joined is named by the string as sent.
\<close>

lemma join_task_case_variant:
  "rooms (fst (join_task ex_db ex_s2 (ex_sock ''c1'' ''u1'') ex_id1_upper)) (task_room ex_id1_upper)
     = insert ''c1'' (rooms ex_s2 (task_room ex_id1_upper))"
  by (simp add: join_task_def findOne_related_ex_T1 ex_sock_def Let_def socket_join_def)

section \<open>Fan-out of task events\<close>

lemma findById_ex_T1: "findById ex_db ex_id1 = Resolved (Some ex_T1)"
  by (simp add: findById_def ex_db_def ex_T1_def)

lemma rooms_ex_s2:
  "rooms ex_s2 (task_room ex_id1) = {}" "rooms ex_s2 (user_room ''u2'') = {''c2''}"
  "rooms ex_s2 (user_room ''u3'') = {}"
  by (simp_all add: ex_s2_def connection_state init_core_def ex_sock_def)

lemma rooms_ex_room: "rooms ex_room (task_room ex_id1) = {''c1'', ''c2''}"
  by (auto simp: ex_room_def join_task_def findOne_related_ex_T1 Let_def socket_join_def
      ex_sock_def rooms_ex_s2)

text \<open>
  Claim C8: a \<open>task:update\<close> from connection \<open>C\<close>, whose user has \<open>edit\<close> access to task \<open>X\<close>,
  is emitted once, to the members of room \<open>task:X\<close> other than \<open>C\<close>: every such member is
  delivered the \<open>task:updated\<close> event, and \<open>C\<close> and every connection outside the room, in
  whatever other rooms it is, are delivered nothing.
\<close>

theorem task_update_fanout:
  assumes "findById db taskId = Resolved (Some t)" and "hasAccess t (userId sock) Edit"
  shows "task_update db s sock taskId updates action
           = [(rooms s (task_room taskId) - {socket_id sock},
               TaskUpdated taskId updates action (userId sock) (userName sock))]
       \<and> deliveries (task_update db s sock taskId updates action) c
           = (if c \<in> rooms s (task_room taskId) \<and> c \<noteq> socket_id sock
              then [TaskUpdated taskId updates action (userId sock) (userName sock)] else [])"
  using assms by (simp add: task_update_def socket_to_emit_def deliveries_def)

text \<open>
  The theorem with \<open>c1\<close> and \<open>c2\<close> in the room of \<open>T1\<close> and the owner publishing on \<open>c1\<close>:
  \<open>c2\<close> is delivered the event once, \<open>c1\<close> nothing.
\<close>

theorem task_update_fanout_witness:
  "deliveries (task_update ex_db ex_room (ex_sock ''c1'' ''u1'') ex_id1 ''status'' ''edit'') ''c2''
     = [TaskUpdated ex_id1 ''status'' ''edit'' ''u1'' ''u1 X'']
   \<and> deliveries (task_update ex_db ex_room (ex_sock ''c1'' ''u1'') ex_id1 ''status'' ''edit'') ''c1''
     = []"
proof -
  have "hasAccess ex_T1 (userId (ex_sock ''c1'' ''u1'')) Edit"
    by (simp add: hasAccess_def ex_T1_def ex_sock_def)
  note inst = task_update_fanout [OF findById_ex_T1 this, of ex_room "''status''" "''edit''"]
  from inst [of "''c2''"] inst [of "''c1''"] show ?thesis
    by (simp add: rooms_ex_room ex_sock_def userName_def deliveries_def)
qed

text \<open>
  Claim C4, as the code has it: a \<open>task:comment\<close> from a connection whose user has \<open>view\<close>
  access to task \<open>X\<close> is emitted once, to all members of room \<open>task:X\<close>: every member is
  delivered the \<open>task:comment:new\<close> event, the originating connection included when it is a
  member.
\<close>

theorem task_comment_fanout:
  assumes "findById db taskId = Resolved (Some t)" and "hasAccess t (userId sock) View"
  shows "task_comment db s sock taskId content
           = [(rooms s (task_room taskId),
               TaskCommentNew taskId content (userId sock) (firstName (user sock))
                 (lastName (user sock)) (profileImage (user sock)))]
       \<and> deliveries (task_comment db s sock taskId content) c
           = (if c \<in> rooms s (task_room taskId)
              then [TaskCommentNew taskId content (userId sock) (firstName (user sock))
                      (lastName (user sock)) (profileImage (user sock))] else [])"
  using assms by (simp add: task_comment_def io_to_emit_def deliveries_def)

text \<open>The theorem with \<open>c1\<close> and \<open>c2\<close> in the room of \<open>T1\<close>, for the other member \<open>c2\<close>.\<close>

theorem task_comment_fanout_witness:
  "deliveries (task_comment ex_db ex_room (ex_sock ''c1'' ''u1'') ex_id1 ''hi'') ''c2''
     = [TaskCommentNew ex_id1 ''hi'' ''u1'' ''u1'' ''X'' []]"
proof -
  have "hasAccess ex_T1 (userId (ex_sock ''c1'' ''u1'')) View"
    by (simp add: hasAccess_def ex_T1_def ex_sock_def)
  from task_comment_fanout [OF findById_ex_T1 this, of ex_room "''hi''" "''c2''"]
  show ?thesis by (simp add: rooms_ex_room ex_sock_def deliveries_def)
qed

text \<open>
  Claim C4 as stated fails: \<open>c1\<close> is a member of the room of \<open>T1\<close>, publishes a comment, and
  is delivered its own comment event.
\<close>

theorem comment_echoed_to_originator_counterexample:
  "''c1'' \<in> rooms ex_room (task_room ex_id1)
     \<and> deliveries (task_comment ex_db ex_room (ex_sock ''c1'' ''u1'') ex_id1 ''hi'') ''c1''
         = [TaskCommentNew ex_id1 ''hi'' ''u1'' ''u1'' ''X'' []]"
  by (simp add: rooms_ex_room task_comment_def findById_ex_T1 hasAccess_def ex_T1_def
      ex_sock_def io_to_emit_def deliveries_def)

text \<open>
  Claim C9, evaluated on the code: user \<open>u4\<close> has no \<open>view\<close> access to \<open>T1\<close>; a \<open>task:typing\<close>
  event for \<open>T1\<close> pushed on its connection \<open>c4\<close> is delivered to \<open>c1\<close>, a member of the room
  of \<open>T1\<close>. The handler emits without consulting the access check.
\<close>

theorem typing_without_access_reaches_room:
  "\<not> hasAccess ex_T1 ''u4'' View
     \<and> ''c1'' \<in> rooms ex_room (task_room ex_id1)
     \<and> deliveries (task_typing ex_room (ex_sock ''c4'' ''u4'') ex_id1 True) ''c1''
         = [TaskTypingStatus ex_id1 ''u4'' ''u4 X'' True]"
  by (simp add: rooms_ex_room task_typing_def hasAccess_def ex_T1_def
      ex_sock_def socket_to_emit_def deliveries_def userName_def)

section \<open>Status change\<close>

lemma set_notificationRecipients:
  "set (notificationRecipients t sock) = task_users t - {userId sock}"
  by (auto simp: notificationRecipients_def task_users_def)

text \<open>
  Claim C10: an accepted \<open>task:status:change\<close> on task \<open>T\<close> by user \<open>U\<close> (who has \<open>edit\<close>
  access) emits the \<open>task:status:changed\<close> event to the room \<open>task:T\<close> without the sender,
  and a \<open>notification\<close> event to the inbox room of each of the owner, the assignees and the
  \<open>sharedWith\<close> users of \<open>T\<close> other than \<open>U\<close>, members of the task room or not; these are
  all the emissions.
\<close>

theorem status_change_notifies_related_users:
  assumes "findById db taskId = Resolved (Some t)" and "hasAccess t (userId sock) Edit"
  shows "set (task_status_change db s sock taskId fromStatus toStatus)
           = insert (rooms s (task_room taskId) - {socket_id sock},
                     TaskStatusChanged taskId fromStatus toStatus (userId sock) (userName sock))
               ((\<lambda>u. (rooms s (user_room u),
                       Notification ''task_status_changed'' (status_message t toStatus)
                         taskId (userId sock) (userName sock)))
                  ` (task_users t - {userId sock}))"
  using assms
  by (simp add: task_status_change_def socket_to_emit_def io_to_emit_def
      set_notificationRecipients)

text \<open>
  The theorem for the owner \<open>u1\<close> changing the status of \<open>T1\<close> while nobody is in the room
  of \<open>T1\<close>: \<open>u2\<close>, connected on \<open>c2\<close>, is notified through its inbox room.
\<close>

theorem status_change_notifies_related_users_witness:
  "set (task_status_change ex_db ex_s2 (ex_sock ''c1'' ''u1'') ex_id1 ''todo'' ''completed'')
     = {({}, TaskStatusChanged ex_id1 ''todo'' ''completed'' ''u1'' ''u1 X''),
        ({''c2''}, Notification ''task_status_changed''
                     (status_message ex_T1 ''completed'') ex_id1 ''u1'' ''u1 X''),
        ({}, Notification ''task_status_changed''
                     (status_message ex_T1 ''completed'') ex_id1 ''u1'' ''u1 X'')}"
proof -
  have "hasAccess ex_T1 (userId (ex_sock ''c1'' ''u1'')) Edit"
    by (simp add: hasAccess_def ex_T1_def ex_sock_def)
  note inst = status_change_notifies_related_users [OF findById_ex_T1 this, of ex_s2 "''todo''" "''completed''"]
  have users: "task_users ex_T1 - {userId (ex_sock ''c1'' ''u1'')} = {''u2'', ''u3''}"
    by (auto simp: task_users_def ex_T1_def ex_sock_def)
  show ?thesis unfolding inst users
    by (simp add: rooms_ex_s2 ex_sock_def userName_def)
qed

section \<open>Deleting a task\<close>

text \<open>
  Claim C6, evaluated on the code, with \<open>c1\<close> and \<open>c2\<close> in the room of \<open>T1\<close> and a request
  to delete \<open>T1\<close> for its owner \<open>u1\<close>. When an authentication middleware has set \<open>req.user\<close>,
  the route answers 200 and removes \<open>T1\<close> from the store; as the server mounts the router,
  \<open>req.user\<close> is undefined and the route answers 500 and removes nothing. Either way the
  response and the store are all the route returns: the socket state is no argument and no
  result of it, and \<open>c1\<close> and \<open>c2\<close> are the members of the room of \<open>T1\<close> before and after,
  where a \<open>task:typing\<close> event for \<open>T1\<close> still reaches \<open>c2\<close>.
\<close>

theorem delete_route_returns_response_and_store_only:
  "delete_task_route ex_db (Some ''u1'') ex_id1
     = (Response 200 ''Task deleted successfully'', Tasks ex_cast [ex_T2])
   \<and> delete_task_route ex_db None ex_id1 = (Response 500 ''Permission check failed'', ex_db)
   \<and> rooms ex_room (task_room ex_id1) = {''c1'', ''c2''}
   \<and> deliveries (task_typing ex_room (ex_sock ''c1'' ''u1'') ex_id1 True) ''c2''
       = [TaskTypingStatus ex_id1 ''u1'' ''u1 X'' True]"
proof -
  have "delete_task_route ex_db (Some ''u1'') ex_id1
          = (Response 200 ''Task deleted successfully'', Tasks ex_cast [ex_T2])"
    by (simp add: delete_task_route_def checkTaskAccess_def findById_ex_T1 hasAccess_def)
       (simp add: ex_T1_def ex_db_def findByIdAndDelete_def)
  moreover have "delete_task_route ex_db None ex_id1
          = (Response 500 ''Permission check failed'', ex_db)"
    by (simp add: delete_task_route_def checkTaskAccess_def)
  ultimately show ?thesis
    by (simp add: rooms_ex_room task_typing_def socket_to_emit_def deliveries_def ex_sock_def
        userName_def)
qed

end
